theory Spec2Isabelle
  imports Main "HOL-Library.AList"
begin

section \<open>Data model\<close>

text \<open>
  The application of \<^verbatim>\<open>src/App.jsx\<close> keeps two collections fetched from a hosted
  backend (product rows and inquiry rows) next to three pieces of view state. A product
  is read field by field (\<^verbatim>\<open>p.category\<close>, \<^verbatim>\<open>p.name\<close>, \<^verbatim>\<open>p.id\<close>), so it is a record;
  the object built by the add-product form has the first five fields, a row of the table
  has \<^verbatim>\<open>id\<close> and \<^verbatim>\<open>created_at\<close> on top. The price is a JavaScript number; its type is
  left as the parameter \<open>'n\<close>. The fields \<^verbatim>\<open>id\<close> and \<^verbatim>\<open>image\<close> carry the suffix \<open>_f\<close>,
  since \<open>id\<close> and \<open>image\<close> are constants of HOL.
\<close>

record 'n new_product =
  name :: string
  category :: string
  price :: 'n
  description :: string
  image_f :: string

record 'n product = "'n new_product" +
  id_f :: nat
  created_at :: nat

text \<open>
  An inquiry is only ever built with an object literal and copied with the spread
  operator, so it is an object in the JavaScript sense: an association list from
  property names to string values, in insertion order, with distinct keys.
\<close>

type_synonym jsobj = "(string \<times> string) list"

text \<open>
  Every call of the gateway resolves to an object \<^verbatim>\<open>{ data, error }\<close>; \<^verbatim>\<open>data\<close> may be
  \<^verbatim>\<open>null\<close>, \<^verbatim>\<open>error\<close> is \<^verbatim>\<open>null\<close> or an object with a \<^verbatim>\<open>message\<close>.
\<close>

record gw_error =
  message :: string

datatype 'a reply = Reply "'a option" "gw_error option"

text \<open>
  The gateway itself (\<^verbatim>\<open>./supabase\<close>) is an external collaborator. What it answers to
  each of the five requests that the application issues is a parameter of the model.
\<close>

record 'n supabase =
  select_products :: "'n product list reply"
  select_inquiries :: "jsobj list reply"
  insert_products :: "'n new_product list \<Rightarrow> unit reply"
  insert_inquiries :: "jsobj list \<Rightarrow> unit reply"
  delete_products :: "nat \<Rightarrow> unit reply"

text \<open>
  What the application does to the outside: console output, blocking notices, the
  confirmation prompt and the requests sent to the gateway, in the order of their issue.
  \<open>Select t c o a\<close> is \<^verbatim>\<open>from(t).select(c).order(o, { ascending: a })\<close>,
  \<open>Delete_eq t c v\<close> is \<^verbatim>\<open>from(t).delete().eq(c, v)\<close>.
\<close>

datatype 'n effect =
    Console_error string string
  | Alert string
  | Confirm string
  | Select string string string bool
  | Insert_products "'n new_product list"
  | Insert_inquiries "jsobj list"
  | Delete_eq string string nat

fun is_Select :: "'n effect \<Rightarrow> bool" where
  "is_Select (Select t c ord a) = True"
| "is_Select e = False"

text \<open>
  The state of the \<^verbatim>\<open>App\<close> component (its five \<^verbatim>\<open>useState\<close> cells) together with the
  trace of effects issued so far.
\<close>

record 'n app =
  view :: string
  products :: "'n product list"
  inquiries :: "jsobj list"
  isAdmin :: bool
  loading :: bool
  effects :: "'n effect list"

definition App_init :: "'n app" where
  "App_init = \<lparr>view = ''home'', products = [], inquiries = [], isAdmin = False,
     loading = True, effects = []\<rparr>"

section \<open>State setters and effects\<close>

definition emit :: "'n effect \<Rightarrow> 'n app \<Rightarrow> 'n app" where
  "emit e w = w\<lparr>effects := effects w @ [e]\<rparr>"

definition setView :: "string \<Rightarrow> 'n app \<Rightarrow> 'n app" where
  "setView v w = w\<lparr>view := v\<rparr>"

definition setProducts :: "'n product list \<Rightarrow> 'n app \<Rightarrow> 'n app" where
  "setProducts ps w = w\<lparr>products := ps\<rparr>"

definition setInquiries :: "jsobj list \<Rightarrow> 'n app \<Rightarrow> 'n app" where
  "setInquiries qs w = w\<lparr>inquiries := qs\<rparr>"

definition setIsAdmin :: "bool \<Rightarrow> 'n app \<Rightarrow> 'n app" where
  "setIsAdmin b w = w\<lparr>isAdmin := b\<rparr>"

definition setLoading :: "bool \<Rightarrow> 'n app \<Rightarrow> 'n app" where
  "setLoading b w = w\<lparr>loading := b\<rparr>"

definition navigate :: "string \<Rightarrow> 'n app \<Rightarrow> 'n app" where
  "navigate page w = setView page w"

section \<open>The data synchronisation controller\<close>

text \<open>
  \<^verbatim>\<open>fetchData\<close> (lines 14 to 42). The two awaited requests are taken in program order;
  the states between them are the values of \<open>fetch_products\<close> and \<open>fetch_inquiries\<close>.
  \<^verbatim>\<open>productData || []\<close> replaces a \<^verbatim>\<open>null\<close> payload by the empty array.
\<close>

definition fetch_products :: "'n supabase \<Rightarrow> 'n app \<Rightarrow> 'n app" where
  "fetch_products sb w =
     (let w1 = emit (Select ''products'' ''*'' ''created_at'' False) w in
      case select_products sb of
        Reply productData (Some prodError) \<Rightarrow>
          emit (Console_error ''Error fetching products:'' (message prodError)) w1
      | Reply productData None \<Rightarrow>
          setProducts (case productData of Some d \<Rightarrow> d | None \<Rightarrow> []) w1)"

definition fetch_inquiries :: "'n supabase \<Rightarrow> 'n app \<Rightarrow> 'n app" where
  "fetch_inquiries sb w =
     (let w1 = emit (Select ''inquiries'' ''*'' ''created_at'' False) w in
      case select_inquiries sb of
        Reply inquiryData (Some inqError) \<Rightarrow>
          emit (Console_error ''Error fetching inquiries:'' (message inqError)) w1
      | Reply inquiryData None \<Rightarrow>
          setInquiries (case inquiryData of Some d \<Rightarrow> d | None \<Rightarrow> []) w1)"

definition fetchData :: "'n supabase \<Rightarrow> 'n app \<Rightarrow> 'n app" where
  "fetchData sb w =
     setLoading False (fetch_inquiries sb (fetch_products sb (setLoading True w)))"

text \<open>
  \<^verbatim>\<open>fetchData\<close> as it runs. An \<^verbatim>\<open>async\<close> function runs up to its next \<^verbatim>\<open>await\<close> and
  resumes when the awaited request has settled; between the two the component renders
  the state reached so far. \<open>fetchData_step\<close> is one such stretch of lines 14 to 42: from
  the call to the issue of the first request (lines 15 to 21), from the first reply to
  the issue of the second request (lines 23 to 33), and from the second reply to the end
  (lines 35 to 41). A request that never settles leaves the run at its \<open>Await\<close> point.
\<close>

datatype fetch_pc = Fetch_start | Await_products | Await_inquiries | Fetch_done

definition on_products_reply :: "'n product list reply \<Rightarrow> 'n app \<Rightarrow> 'n app" where
  "on_products_reply r w =
     (case r of
        Reply productData (Some prodError) \<Rightarrow>
          emit (Console_error ''Error fetching products:'' (message prodError)) w
      | Reply productData None \<Rightarrow>
          setProducts (case productData of Some d \<Rightarrow> d | None \<Rightarrow> []) w)"

definition on_inquiries_reply :: "jsobj list reply \<Rightarrow> 'n app \<Rightarrow> 'n app" where
  "on_inquiries_reply r w =
     (case r of
        Reply inquiryData (Some inqError) \<Rightarrow>
          emit (Console_error ''Error fetching inquiries:'' (message inqError)) w
      | Reply inquiryData None \<Rightarrow>
          setInquiries (case inquiryData of Some d \<Rightarrow> d | None \<Rightarrow> []) w)"

fun fetchData_step :: "'n supabase \<Rightarrow> fetch_pc \<times> 'n app \<Rightarrow> fetch_pc \<times> 'n app" where
  "fetchData_step sb (Fetch_start, w) =
     (Await_products, emit (Select ''products'' ''*'' ''created_at'' False) (setLoading True w))"
| "fetchData_step sb (Await_products, w) =
     (Await_inquiries,
      emit (Select ''inquiries'' ''*'' ''created_at'' False)
        (on_products_reply (select_products sb) w))"
| "fetchData_step sb (Await_inquiries, w) =
     (Fetch_done, setLoading False (on_inquiries_reply (select_inquiries sb) w))"
| "fetchData_step sb (Fetch_done, w) = (Fetch_done, w)"

text \<open>
  \<^verbatim>\<open>addProduct\<close> (lines 53 to 67). The \<^verbatim>\<open>try\<close> block either throws the gateway's error
  (\<open>Inl\<close>, with the state reached at the throw) or runs to its end; the \<^verbatim>\<open>catch\<close>
  clause turns the thrown error into a notice.
\<close>

definition addProduct_try ::
  "'n supabase \<Rightarrow> 'n new_product \<Rightarrow> 'n app \<Rightarrow> (gw_error \<times> 'n app) + 'n app" where
  "addProduct_try sb product w =
     (let w1 = emit (Insert_products [product]) w in
      case insert_products sb [product] of
        Reply d (Some err) \<Rightarrow> Inl (err, w1)
      | Reply d None \<Rightarrow> Inr (fetchData sb (emit (Alert ''Product Added Successfully!'') w1)))"

definition addProduct :: "'n supabase \<Rightarrow> 'n new_product \<Rightarrow> 'n app \<Rightarrow> 'n app" where
  "addProduct sb product w =
     (case addProduct_try sb product w of
        Inl (e, w') \<Rightarrow> emit (Alert (''Error adding product: '' @ message e)) w'
      | Inr w' \<Rightarrow> w')"

text \<open>
  \<^verbatim>\<open>deleteProduct\<close> (lines 69 to 83). \<open>confirm\<close> is \<^verbatim>\<open>window.confirm\<close>: the user's answer
  to the prompt.
\<close>

definition deleteProduct ::
  "(string \<Rightarrow> bool) \<Rightarrow> 'n supabase \<Rightarrow> nat \<Rightarrow> 'n app \<Rightarrow> 'n app" where
  "deleteProduct confirm sb i w =
     (let w1 = emit (Confirm ''Are you sure you want to delete this item?'') w in
      if confirm ''Are you sure you want to delete this item?'' then
        (let w2 = emit (Delete_eq ''products'' ''id'' i) w1 in
         case delete_products sb i of
           Reply d (Some err) \<Rightarrow> emit (Alert (''Error deleting: '' @ message err)) w2
         | Reply d None \<Rightarrow> fetchData sb w2)
      else w1)"

text \<open>
  \<^verbatim>\<open>addInquiry\<close> (lines 85 to 98). \<^verbatim>\<open>{ ...inquiry, status: 'New' }\<close> copies the
  properties of \<^verbatim>\<open>inquiry\<close> in order and then assigns \<^verbatim>\<open>status\<close>: an existing
  \<^verbatim>\<open>status\<close> keeps its place and gets the new value, a missing one is added last.
\<close>

definition addInquiry_try ::
  "'n supabase \<Rightarrow> jsobj \<Rightarrow> 'n app \<Rightarrow> (gw_error \<times> 'n app) + 'n app" where
  "addInquiry_try sb inquiry w =
     (let row = AList.update ''status'' ''New'' inquiry;
          w1 = emit (Insert_inquiries [row]) w in
      case insert_inquiries sb [row] of
        Reply d (Some err) \<Rightarrow> Inl (err, w1)
      | Reply d None \<Rightarrow>
          Inr (emit (Alert ''Inquiry Sent! The artisan will contact you shortly.'') w1))"

definition addInquiry :: "'n supabase \<Rightarrow> jsobj \<Rightarrow> 'n app \<Rightarrow> 'n app" where
  "addInquiry sb inquiry w =
     (case addInquiry_try sb inquiry w of
        Inl (e, w') \<Rightarrow> emit (Alert (''Error sending inquiry: '' @ message e)) w'
      | Inr w' \<Rightarrow> w')"

section \<open>The root component\<close>

text \<open>
  The effect of line 45 has the empty dependency list. React runs an effect after the
  render that mounts the component, and after a later render only when a dependency
  differs from its value at the previous render: \<open>useEffect_due prev deps\<close>, where
  \<open>prev\<close> is \<open>None\<close> before the mount. \<open>App_commit\<close> is what follows one render of
  \<^verbatim>\<open>App\<close>: the effect, when due, calls \<^verbatim>\<open>fetchData\<close>.
\<close>

definition useEffect_due :: "'d list option \<Rightarrow> 'd list \<Rightarrow> bool" where
  "useEffect_due prev deps = (case prev of None \<Rightarrow> True | Some d \<Rightarrow> d \<noteq> deps)"

definition App_commit ::
  "'n supabase \<Rightarrow> 'n app \<times> unit list option \<Rightarrow> 'n app \<times> unit list option" where
  "App_commit sb = (\<lambda>(w, prev).
     ((if useEffect_due prev [] then fetchData sb w else w), Some []))"

text \<open>
  The content switcher of lines 126 to 148: the spinner while \<^verbatim>\<open>loading\<close>, and otherwise
  the fragment of the four conditional views, each present or absent.
\<close>

datatype 'n element =
    Loader2_el
  | HomeView_el "'n product list"
  | CatalogView_el "'n product list"
  | AdminLogin_el
  | AdminDashboard_el "'n product list" "jsobj list"

definition main_content :: "'n app \<Rightarrow> 'n element list" where
  "main_content w =
     (if loading w then [Loader2_el]
      else (if view w = ''home'' then [HomeView_el (products w)] else []) @
           (if view w = ''catalog'' then [CatalogView_el (products w)] else []) @
           (if view w = ''admin-login'' then [AdminLogin_el] else []) @
           (if view w = ''admin-dashboard''
            then [AdminDashboard_el (products w) (inquiries w)] else []))"

text \<open>The two callbacks that \<^verbatim>\<open>App\<close> passes down (lines 134 and 141 to 145).\<close>

definition onLogin :: "'n app \<Rightarrow> 'n app" where
  "onLogin w = navigate ''admin-dashboard'' (setIsAdmin True w)"

definition onLogout :: "'n app \<Rightarrow> 'n app" where
  "onLogout w = emit (Alert ''Logged out successfully'') (setView ''home'' (setIsAdmin False w))"

section \<open>Views\<close>

text \<open>
  \<^verbatim>\<open>HomeView\<close>, the featured grid (lines 180 to 186): \<^verbatim>\<open>products.slice(0, 4)\<close> as cards,
  or the notice.
\<close>

datatype 'n featured = Cards "'n product list" | Notice string

definition HomeView_featured :: "'n product list \<Rightarrow> 'n featured" where
  "HomeView_featured ps =
     (if length ps > 0 then Cards (take 4 ps)
      else Notice ''No products yet. Go to Admin > Dashboard to add some!'')"

text \<open>
  \<^verbatim>\<open>CatalogView\<close> (lines 193 to 199). A JavaScript \<^verbatim>\<open>Set\<close> built from an array keeps
  each value once, in the order of insertion: adding a value that is present changes
  nothing.
\<close>

definition Set_add :: "'a list \<Rightarrow> 'a \<Rightarrow> 'a list" where
  "Set_add s x = (if x \<in> set s then s else s @ [x])"

definition new_Set :: "'a list \<Rightarrow> 'a list" where
  "new_Set xs = foldl Set_add [] xs"

definition categories :: "'n product list \<Rightarrow> string list" where
  "categories ps = ''All'' # new_Set (map category ps)"

definition filteredProducts :: "string \<Rightarrow> 'n product list \<Rightarrow> 'n product list" where
  "filteredProducts flt ps =
     (if flt = ''All'' then ps else filter (\<lambda>p. category p = flt) ps)"

text \<open>
  The reading of "the products whose category is an exact string match" that the
  displayed list is compared with.
\<close>

definition exact_match :: "string \<Rightarrow> 'n product list \<Rightarrow> 'n product list" where
  "exact_match c ps = filter (\<lambda>p. category p = c) ps"

text \<open>
  The reading of "the distinct values in first-occurrence order" that the derived
  category list is compared with: the head, then the rest without it.
\<close>

primrec first_occurrences :: "'a list \<Rightarrow> 'a list" where
  "first_occurrences [] = []"
| "first_occurrences (x # xs) = x # filter (\<lambda>y. y \<noteq> x) (first_occurrences xs)"

text \<open>
  \<^verbatim>\<open>ProductCard\<close>, the inquiry form (lines 287 to 297). \<open>formData k\<close> is
  \<^verbatim>\<open>formData.get(k)\<close>: the text of the input named \<open>k\<close>; the handlers read only names
  that their form declares.
\<close>

record ProductCard =
  isOpen :: bool

definition ProductCard_onSubmit ::
  "(jsobj \<Rightarrow> 'n app \<Rightarrow> 'n app) \<Rightarrow> 'n product \<Rightarrow> (string \<Rightarrow> string) \<Rightarrow>
     ProductCard \<times> 'n app \<Rightarrow> ProductCard \<times> 'n app" where
  "ProductCard_onSubmit onInquire product formData = (\<lambda>(c, w).
     (c\<lparr>isOpen := False\<rparr>,
      onInquire [(''product'', name product),
                 (''customer'', formData ''name''),
                 (''contact'', formData ''contact''),
                 (''message'', formData ''message'')] w))"

text \<open>\<^verbatim>\<open>AdminLogin\<close> (lines 311 to 322, and the conditional paragraph of line 339).\<close>

record AdminLogin =
  pass :: string
  error :: string

definition handleLogin ::
  "('n app \<Rightarrow> 'n app) \<Rightarrow> AdminLogin \<times> 'n app \<Rightarrow> AdminLogin \<times> 'n app" where
  "handleLogin onLogin_cb = (\<lambda>(c, w).
     if pass c = ''sk234f90'' then (c, onLogin_cb w)
     else (c\<lparr>error := ''Invalid Password (Hint: admin)''\<rparr>, w))"

definition inline_error :: "AdminLogin \<Rightarrow> string option" where
  "inline_error c = (if error c \<noteq> [] then Some (error c) else None)"

text \<open>
  \<^verbatim>\<open>AdminDashboard\<close>, the add-product form (lines 417 to 431). \<open>Number\<close> is JavaScript's
  conversion of the price text to a number.
\<close>

record AdminDashboard =
  tab :: string
  isAddOpen :: bool

definition placeholder_image :: string where
  "placeholder_image =
     ''https://images.unsplash.com/photo-1513519245088-0e12902e5a38?auto=format&fit=crop&q=80&w=500''"

definition AdminDashboard_onSubmit ::
  "(string \<Rightarrow> 'n) \<Rightarrow> ('n new_product \<Rightarrow> 'n app \<Rightarrow> 'n app) \<Rightarrow> (string \<Rightarrow> string) \<Rightarrow>
     AdminDashboard \<times> 'n app \<Rightarrow> AdminDashboard \<times> 'n app" where
  "AdminDashboard_onSubmit Number onAddProduct formData = (\<lambda>(c, w).
     (let imageFile = formData ''image'' in
      (c\<lparr>isAddOpen := False\<rparr>,
       onAddProduct \<lparr>name = formData ''name'',
                     category = formData ''category'',
                     price = Number (formData ''price''),
                     description = formData ''description'',
                     image_f = (if imageFile \<noteq> [] then ''/'' @ imageFile
                                else placeholder_image)\<rparr> w)))"

section \<open>Sample data\<close>

text \<open>
  Concrete rows, gateways, answers to the prompt and form contents, on which the
  properties below are evaluated. \<open>online\<close> answers every request with success,
  \<open>offline\<close> answers every request with the error \<open>failure\<close>.
\<close>

definition item :: "string \<Rightarrow> string \<Rightarrow> nat \<Rightarrow> nat \<Rightarrow> nat product" where
  "item nm cat i t = \<lparr>name = nm, category = cat, price = 1200, description = ''Handmade'',
     image_f = ''/item.jpg'', id_f = i, created_at = t\<rparr>"

definition bowl :: "nat product" where
  "bowl = item ''Clay Bowl'' ''Pottery'' 1 100"

definition jug :: "nat new_product" where
  "jug = \<lparr>name = ''Jug'', category = ''Pottery'', price = 900, description = ''Glazed'',
     image_f = ''/jug.jpg''\<rparr>"

definition shelf :: "nat product list" where
  "shelf = [item ''Rug'' ''Weaving'' 5 500, item ''Vase'' ''Pottery'' 4 400,
     item ''Jug'' ''Pottery'' 3 300, item ''Mat'' ''Weaving'' 2 200, bowl]"

definition trio :: "nat product list" where
  "trio = [item ''Jug'' ''Pottery'' 3 300, bowl, item ''Mat'' ''Weaving'' 2 200]"

text \<open>A snapshot with a product whose category, typed into the form, is \<^verbatim>\<open>All\<close>.\<close>

definition lamps :: "nat product list" where
  "lamps = [item ''Lamp'' ''All'' 6 600, bowl]"

definition failure :: gw_error where
  "failure = \<lparr>message = ''Failed to fetch''\<rparr>"

definition online :: "nat supabase" where
  "online = \<lparr>select_products = Reply (Some [bowl]) None,
     select_inquiries = Reply (Some []) None,
     insert_products = (\<lambda>rows. Reply None None),
     insert_inquiries = (\<lambda>rows. Reply None None),
     delete_products = (\<lambda>i. Reply None None)\<rparr>"

definition offline :: "nat supabase" where
  "offline = \<lparr>select_products = Reply None (Some failure),
     select_inquiries = Reply None (Some failure),
     insert_products = (\<lambda>rows. Reply None (Some failure)),
     insert_inquiries = (\<lambda>rows. Reply None (Some failure)),
     delete_products = (\<lambda>i. Reply None (Some failure))\<rparr>"

definition stocked :: "nat app" where
  "stocked = \<lparr>view = ''admin-dashboard'', products = [bowl], inquiries = [], isAdmin = True,
     loading = False, effects = []\<rparr>"

definition accepts :: "string \<Rightarrow> bool" where
  "accepts prompt = True"

definition declines :: "string \<Rightarrow> bool" where
  "declines prompt = False"

definition asha_form :: "string \<Rightarrow> string" where
  "asha_form k = (if k = ''name'' then ''Asha'' else if k = ''contact'' then ''555-0100'' else [])"

definition bowl_form :: "string \<Rightarrow> string" where
  "bowl_form k = (if k = ''name'' then ''Clay Bowl'' else if k = ''category'' then ''Pottery''
     else if k = ''price'' then ''1200'' else if k = ''description'' then ''Handmade''
     else if k = ''image'' then ''bowl.jpg'' else [])"

definition plain_form :: "string \<Rightarrow> string" where
  "plain_form k = (if k = ''image'' then [] else bowl_form k)"

text \<open>A stand-in for \<^verbatim>\<open>Number\<close> on texts made of decimal digits.\<close>

definition digits :: "string \<Rightarrow> nat" where
  "digits s = foldl (\<lambda>n c. 10 * n + (of_char c - 48)) 0 s"

section \<open>Auxiliary facts\<close>

lemmas setters = emit_def setView_def setProducts_def setInquiries_def setIsAdmin_def
  setLoading_def navigate_def

lemma addProduct_effects:
  "\<exists>rest. effects (addProduct sb p w) = effects w @ Insert_products [p] # rest"
  by (simp add: addProduct_def addProduct_try_def fetchData_def fetch_products_def
      fetch_inquiries_def setters Let_def split: reply.splits option.splits)

lemma Set_add_present: "x \<in> set s \<Longrightarrow> Set_add s x = s"
  by (simp add: Set_add_def)

lemma Set_add_absent: "x \<notin> set s \<Longrightarrow> Set_add s x = s @ [x]"
  by (simp add: Set_add_def)

lemma first_occurrences_filter:
  "first_occurrences (filter P xs) = filter P (first_occurrences xs)"
proof (induction xs)
  case Nil
  show ?case by simp
next
  case (Cons x xs)
  show ?case
  proof (cases "P x")
    case True
    with Cons show ?thesis by (simp add: conj_commute)
  next
    case False
    have "filter P (filter (\<lambda>y. y \<noteq> x) (first_occurrences xs)) = filter P (first_occurrences xs)"
      using False by (auto intro: filter_cong)
    with False Cons show ?thesis by simp
  qed
qed

text \<open>
  The loop behind \<^verbatim>\<open>new Set(array)\<close>, started from any set under construction: what is
  already there stays in front, and of the array only the values not yet present are
  added, each at its first occurrence.
\<close>

lemma foldl_Set_add:
  "foldl Set_add acc xs = acc @ first_occurrences (filter (\<lambda>y. y \<notin> set acc) xs)"
proof (induction xs arbitrary: acc)
  case Nil
  show ?case by simp
next
  case (Cons x xs)
  show ?case
  proof (cases "x \<in> set acc")
    case True
    then show ?thesis by (simp add: Set_add_present Cons)
  next
    case False
    have "filter (\<lambda>y. y \<noteq> x \<and> y \<notin> set acc) xs =
        filter (\<lambda>y. y \<noteq> x) (filter (\<lambda>y. y \<notin> set acc) xs)"
      by (simp add: conj_commute)
    with False show ?thesis
      by (simp add: Set_add_absent Cons first_occurrences_filter del: filter_filter)
  qed
qed

lemma new_Set_first_occurrences: "new_Set xs = first_occurrences xs"
  by (simp add: new_Set_def foldl_Set_add)

lemma set_first_occurrences: "set (first_occurrences xs) = set xs"
  by (induction xs) auto

lemma distinct_first_occurrences: "distinct (first_occurrences xs)"
  by (induction xs) (auto simp add: set_first_occurrences)

lemma remdups_snoc: "remdups (xs @ [x]) = filter (\<lambda>y. y \<noteq> x) (remdups xs) @ [x]"
  by (induction xs) auto

text \<open>
  \<open>first_occurrences\<close> against the library: \<open>remdups\<close> keeps the last occurrence of each
  value, so the first occurrences are those of the reversed list, reversed.
\<close>

lemma first_occurrences_remdups: "first_occurrences xs = rev (remdups (rev xs))"
  by (induction xs) (simp_all add: remdups_snoc rev_filter)

lemma sorted_wrt_take_drop:
  assumes "sorted_wrt R xs" and "a \<in> set (take n xs)" and "b \<in> set (drop n xs)"
  shows "R a b"
proof -
  from assms(1) have "sorted_wrt R (take n xs @ drop n xs)"
    by simp
  then have "\<forall>x \<in> set (take n xs). \<forall>y \<in> set (drop n xs). R x y"
    unfolding sorted_wrt_append by blast
  with assms(2,3) show ?thesis
    by blast
qed

text \<open>The three stretches of \<^verbatim>\<open>fetchData\<close>, run one after the other, are the whole call.\<close>

lemma fetchData_step_start:
  "fetchData_step sb (Fetch_start, w) =
     (Await_products, emit (Select ''products'' ''*'' ''created_at'' False) (setLoading True w))"
  by simp

lemma fetchData_step_twice:
  "fetchData_step sb (fetchData_step sb (Fetch_start, w)) =
     (Await_inquiries,
      emit (Select ''inquiries'' ''*'' ''created_at'' False)
        (fetch_products sb (setLoading True w)))"
  by (simp add: fetch_products_def on_products_reply_def Let_def)

lemma fetchData_step_thrice:
  "fetchData_step sb (fetchData_step sb (fetchData_step sb (Fetch_start, w))) =
     (Fetch_done, fetchData sb w)"
  by (simp add: fetchData_def fetch_products_def fetch_inquiries_def on_products_reply_def
      on_inquiries_reply_def Let_def)

lemma loading_emit: "loading (emit e w) = loading w"
  by (simp add: emit_def)

lemma loading_fetch_products: "loading (fetch_products sb w) = loading w"
  by (simp add: fetch_products_def setters Let_def split: reply.splits option.splits)

lemma loading_shows_spinner: "loading w \<Longrightarrow> main_content w = [Loader2_el]"
  by (simp add: main_content_def)

text \<open>
  However often \<^verbatim>\<open>App\<close> renders after its mount, the effect has run once: the state is
  that of the one refresh of the mount.
\<close>

lemma App_commit_renders:
  "(App_commit sb ^^ Suc n) (App_init, None) = (fetchData sb App_init, Some [])"
  by (induction n) (simp_all add: App_commit_def useEffect_due_def)

section \<open>Refresh\<close>

text \<open>
  Claim C1, as amended. When the gateway answers the fetch of a collection with an error,
  \<^verbatim>\<open>fetchData\<close> writes the error to the console and leaves that collection as it was
  before the call: empty when it was empty, as in the first refresh from \<open>App_init\<close>, and
  the previous snapshot otherwise. A collection whose fetch succeeds is replaced by the
  fetched rows (by the empty sequence when the payload is \<^verbatim>\<open>null\<close>), whatever the other
  fetch did. Nothing is retried: the call issues one select on each table.
\<close>

theorem fetchData_error_keeps_collection:
  "(select_products sb = Reply d (Some e) \<longrightarrow>
      products (fetchData sb w) = products w \<and>
      products (fetchData sb App_init) = [] \<and>
      Console_error ''Error fetching products:'' (message e) \<in> set (effects (fetchData sb w)))
   \<and> (select_inquiries sb = Reply d' (Some e') \<longrightarrow>
      inquiries (fetchData sb w) = inquiries w \<and>
      inquiries (fetchData sb App_init) = [] \<and>
      Console_error ''Error fetching inquiries:'' (message e') \<in> set (effects (fetchData sb w)))
   \<and> (select_products sb = Reply d None \<longrightarrow>
      products (fetchData sb w) = (case d of Some ps \<Rightarrow> ps | None \<Rightarrow> []))
   \<and> (select_inquiries sb = Reply d' None \<longrightarrow>
      inquiries (fetchData sb w) = (case d' of Some qs \<Rightarrow> qs | None \<Rightarrow> []))
   \<and> (\<exists>new. effects (fetchData sb w) = effects w @ new \<and>
         filter is_Select new =
           [Select ''products'' ''*'' ''created_at'' False,
            Select ''inquiries'' ''*'' ''created_at'' False])"
  by (simp add: fetchData_def fetch_products_def fetch_inquiries_def setters Let_def App_init_def
      split: reply.splits option.splits)

text \<open>
  The amended claim on the sample data: a refresh against the failing gateway keeps the
  one product of \<open>stocked\<close> and logs both errors; a refresh against the working gateway
  replaces both collections.
\<close>

theorem fetchData_error_keeps_collection_witness:
  "products (fetchData offline stocked) = [bowl]
   \<and> Console_error ''Error fetching products:'' ''Failed to fetch''
        \<in> set (effects (fetchData offline stocked))
   \<and> inquiries (fetchData offline stocked) = []
   \<and> Console_error ''Error fetching inquiries:'' ''Failed to fetch''
        \<in> set (effects (fetchData offline stocked))
   \<and> products (fetchData online App_init) = [bowl]
   \<and> inquiries (fetchData online App_init) = []"
  using fetchData_error_keeps_collection
      [where sb = offline and w = stocked and d = None and e = failure
         and d' = None and e' = failure]
    fetchData_error_keeps_collection
      [where sb = online and w = App_init and d = "Some [bowl]" and d' = "Some []"]
  by (simp add: offline_def online_def stocked_def failure_def)

text \<open>
  Claim C1 as stated fails: after a first refresh that loaded one product, a second
  refresh whose product fetch returns an error leaves that product in the collection,
  which is therefore not the empty sequence.
\<close>

theorem fetchData_error_not_emptied:
  "select_products offline = Reply None (Some failure)
   \<and> products (fetchData offline (fetchData online App_init)) = [bowl]
   \<and> products (fetchData offline (fetchData online App_init)) \<noteq> []"
  by (simp add: fetchData_def fetch_products_def fetch_inquiries_def setters online_def
      offline_def App_init_def)

text \<open>
  Claim C8. The loading flag is true in the initial state, and while it is true the
  content switcher renders the spinner and no view. A run of \<^verbatim>\<open>fetchData\<close> from any
  state has the flag set, and the spinner showing, when it waits for the products and
  when it waits for the inquiries; its third stretch ends the call, in the state that
  \<open>fetchData\<close> gives, with the flag cleared, whatever the gateway answered. The effect
  that calls \<^verbatim>\<open>fetchData\<close> runs at the mount, where it issues one select on each table;
  after any number of further renders the state is still that of this one refresh.
\<close>

theorem loading_flag_lifecycle:
  "loading (App_init :: 'n app)
   \<and> (loading w \<longrightarrow> main_content w = [Loader2_el])
   \<and> (\<exists>w1. fetchData_step sb (Fetch_start, w) = (Await_products, w1)
         \<and> loading w1 \<and> main_content w1 = [Loader2_el])
   \<and> (\<exists>w2. fetchData_step sb (fetchData_step sb (Fetch_start, w)) = (Await_inquiries, w2)
         \<and> loading w2 \<and> main_content w2 = [Loader2_el])
   \<and> fetchData_step sb (fetchData_step sb (fetchData_step sb (Fetch_start, w))) =
        (Fetch_done, fetchData sb w)
   \<and> fetchData_step sb (Fetch_done, fetchData sb w) = (Fetch_done, fetchData sb w)
   \<and> \<not> loading (fetchData sb w)
   \<and> (App_commit sb ^^ Suc n) (App_init, None) = (fetchData sb App_init, Some [])
   \<and> filter is_Select (effects (fetchData sb (App_init :: 'n app))) =
        [Select ''products'' ''*'' ''created_at'' False,
         Select ''inquiries'' ''*'' ''created_at'' False]
   \<and> App_commit sb (w, Some []) = (w, Some [])"
proof -
  define w1 where
    "w1 = emit (Select ''products'' ''*'' ''created_at'' False) (setLoading True w)"
  define w2 where
    "w2 = emit (Select ''inquiries'' ''*'' ''created_at'' False)
       (fetch_products sb (setLoading True w))"
  have init: "loading (App_init :: 'n app)"
    by (simp add: App_init_def)
  have gate: "loading w \<longrightarrow> main_content w = [Loader2_el]"
    by (simp add: main_content_def)
  have step1: "fetchData_step sb (Fetch_start, w) = (Await_products, w1)"
    unfolding w1_def by (rule fetchData_step_start)
  have flag1: "loading w1"
    by (simp add: w1_def loading_emit setLoading_def)
  have step2: "fetchData_step sb (fetchData_step sb (Fetch_start, w)) = (Await_inquiries, w2)"
    unfolding w2_def by (rule fetchData_step_twice)
  have flag2: "loading w2"
    by (simp add: w2_def loading_emit loading_fetch_products setLoading_def)
  have waits1: "\<exists>w1. fetchData_step sb (Fetch_start, w) = (Await_products, w1)
      \<and> loading w1 \<and> main_content w1 = [Loader2_el]"
    using step1 flag1 loading_shows_spinner [OF flag1] by blast
  have waits2: "\<exists>w2. fetchData_step sb (fetchData_step sb (Fetch_start, w)) =
      (Await_inquiries, w2) \<and> loading w2 \<and> main_content w2 = [Loader2_el]"
    using step2 flag2 loading_shows_spinner [OF flag2] by blast
  have step3: "fetchData_step sb (fetchData_step sb (fetchData_step sb (Fetch_start, w))) =
      (Fetch_done, fetchData sb w)"
    by (rule fetchData_step_thrice)
  have rest: "fetchData_step sb (Fetch_done, fetchData sb w) = (Fetch_done, fetchData sb w)"
    by simp
  have cleared: "\<not> loading (fetchData sb w)"
    by (simp add: fetchData_def setLoading_def)
  have renders: "(App_commit sb ^^ Suc n) (App_init, None) = (fetchData sb App_init, Some [])"
    by (rule App_commit_renders)
  have selects: "filter is_Select (effects (fetchData sb (App_init :: 'n app))) =
      [Select ''products'' ''*'' ''created_at'' False,
       Select ''inquiries'' ''*'' ''created_at'' False]"
    by (simp add: App_init_def fetchData_def fetch_products_def fetch_inquiries_def setters
        Let_def split: reply.splits option.splits)
  have later: "App_commit sb (w, Some []) = (w, Some [])"
    by (simp add: App_commit_def useEffect_due_def)
  from init gate waits1 waits2 step3 rest cleared renders selects later
  show ?thesis
    by blast
qed

text \<open>
  The flag on the sample data: the initial state shows the spinner; a refresh of the
  stocked dashboard, where the flag is clear, shows the spinner while it waits for the
  products; the first refresh ends with the flag cleared against the failing and the
  working gateway alike; three renders after the mount have run one refresh.
\<close>

theorem loading_flag_lifecycle_witness:
  "loading (App_init :: nat app) \<and> main_content (App_init :: nat app) = [Loader2_el]
   \<and> \<not> loading stocked
   \<and> loading (snd (fetchData_step online (Fetch_start, stocked)))
   \<and> main_content (snd (fetchData_step online (Fetch_start, stocked))) = [Loader2_el]
   \<and> loading (snd (fetchData_step online (fetchData_step online (Fetch_start, stocked))))
   \<and> \<not> loading (fetchData offline App_init)
   \<and> \<not> loading (fetchData online App_init)
   \<and> main_content (fetchData online App_init) = [HomeView_el [bowl]]
   \<and> App_commit online (App_commit online (App_commit online (App_init, None))) =
        (fetchData online App_init, Some [])"
  using loading_flag_lifecycle [where w = "App_init :: nat app" and sb = offline and n = 2]
    loading_flag_lifecycle [where w = "App_init :: nat app" and sb = online and n = 2]
    loading_flag_lifecycle [where w = stocked and sb = online and n = 2]
  by (simp add: main_content_def fetchData_def fetch_products_def fetch_inquiries_def setters
     on_products_reply_def online_def App_init_def stocked_def numeral_2_eq_2)

section \<open>Mutations\<close>

text \<open>
  Claim C7. When the gateway accepts the insert, \<^verbatim>\<open>addProduct\<close> shows the success notice
  and then runs a full \<^verbatim>\<open>fetchData\<close>. When the gateway answers with an error, the notice
  carries the error's message and nothing but the trace of effects changes: in particular
  the product and inquiry collections are those of before the call.
\<close>

theorem addProduct_cases:
  "(insert_products sb [p] = Reply d None \<longrightarrow>
      addProduct sb p w =
        fetchData sb (w\<lparr>effects := effects w @
          [Insert_products [p], Alert ''Product Added Successfully!'']\<rparr>))
   \<and> (insert_products sb [p] = Reply d (Some e) \<longrightarrow>
      addProduct sb p w =
        w\<lparr>effects := effects w @
          [Insert_products [p], Alert (''Error adding product: '' @ message e)]\<rparr>
      \<and> products (addProduct sb p w) = products w
      \<and> inquiries (addProduct sb p w) = inquiries w)"
  by (simp add: addProduct_def addProduct_try_def emit_def Let_def)

text \<open>Both outcomes of \<^verbatim>\<open>addProduct\<close> on the sample data.\<close>

theorem addProduct_cases_witness:
  "addProduct online jug stocked =
     fetchData online
       (stocked\<lparr>effects := [Insert_products [jug], Alert ''Product Added Successfully!'']\<rparr>)
   \<and> addProduct offline jug stocked =
     stocked\<lparr>effects :=
       [Insert_products [jug], Alert ''Error adding product: Failed to fetch'']\<rparr>"
  using addProduct_cases [where sb = online and p = jug and w = stocked and d = None]
    addProduct_cases [where sb = offline and p = jug and w = stocked and d = None and e = failure]
  by (simp add: online_def offline_def stocked_def failure_def)

text \<open>
  Claim C2. When the user declines the prompt, \<^verbatim>\<open>deleteProduct\<close> issues no request and
  changes nothing but the trace, which records the prompt. When the user confirms and the
  gateway accepts the delete, a full \<^verbatim>\<open>fetchData\<close> follows the request. When the user
  confirms and the gateway answers with an error, the notice carries the error's message
  and the state is otherwise that of before the call.
\<close>

theorem deleteProduct_cases:
  "(\<not> confirm ''Are you sure you want to delete this item?'' \<longrightarrow>
      deleteProduct confirm sb i w =
        w\<lparr>effects := effects w @ [Confirm ''Are you sure you want to delete this item?'']\<rparr>)
   \<and> (confirm ''Are you sure you want to delete this item?'' \<and>
       delete_products sb i = Reply d None \<longrightarrow>
      deleteProduct confirm sb i w =
        fetchData sb (w\<lparr>effects := effects w @
          [Confirm ''Are you sure you want to delete this item?'',
           Delete_eq ''products'' ''id'' i]\<rparr>))
   \<and> (confirm ''Are you sure you want to delete this item?'' \<and>
       delete_products sb i = Reply d (Some e) \<longrightarrow>
      deleteProduct confirm sb i w =
        w\<lparr>effects := effects w @
          [Confirm ''Are you sure you want to delete this item?'',
           Delete_eq ''products'' ''id'' i,
           Alert (''Error deleting: '' @ message e)]\<rparr>)"
  by (simp add: deleteProduct_def emit_def Let_def)

text \<open>The three outcomes of \<^verbatim>\<open>deleteProduct\<close> on the sample data.\<close>

theorem deleteProduct_cases_witness:
  "deleteProduct declines online 1 stocked =
     stocked\<lparr>effects := [Confirm ''Are you sure you want to delete this item?'']\<rparr>
   \<and> deleteProduct accepts online 1 stocked =
     fetchData online
       (stocked\<lparr>effects := [Confirm ''Are you sure you want to delete this item?'',
          Delete_eq ''products'' ''id'' 1]\<rparr>)
   \<and> deleteProduct accepts offline 1 stocked =
     stocked\<lparr>effects := [Confirm ''Are you sure you want to delete this item?'',
        Delete_eq ''products'' ''id'' 1, Alert ''Error deleting: Failed to fetch'']\<rparr>"
  using deleteProduct_cases [where confirm = declines and sb = online and i = 1 and w = stocked]
    deleteProduct_cases
      [where confirm = accepts and sb = online and i = 1 and w = stocked and d = None]
    deleteProduct_cases
      [where confirm = accepts and sb = offline and i = 1 and w = stocked and d = None
         and e = failure]
  by (simp add: declines_def accepts_def online_def offline_def stocked_def failure_def)

text \<open>
  Claim C3. Submitting the inquiry form of a product card sends the gateway one row with
  the product's name and the three fields of the form, followed by the status
  \<^verbatim>\<open>New\<close>, and closes the modal. For any object passed to \<^verbatim>\<open>addInquiry\<close>, the row sent
  has status \<^verbatim>\<open>New\<close> and is the object in every other property. The call issues the
  insert and one notice and nothing else: no select, and the inquiry collection is
  unchanged.
\<close>

theorem addInquiry_payload_no_refresh:
  "(\<exists>msg. ProductCard_onSubmit (addInquiry sb) product formData (c, w) =
      (c\<lparr>isOpen := False\<rparr>,
       w\<lparr>effects := effects w @
         [Insert_inquiries [[(''product'', name product), (''customer'', formData ''name''),
            (''contact'', formData ''contact''), (''message'', formData ''message''),
            (''status'', ''New'')]],
          Alert msg]\<rparr>))
   \<and> (\<exists>row msg. addInquiry sb inquiry w =
          w\<lparr>effects := effects w @ [Insert_inquiries [row], Alert msg]\<rparr>
        \<and> map_of row ''status'' = Some ''New''
        \<and> (\<forall>k. k \<noteq> ''status'' \<longrightarrow> map_of row k = map_of inquiry k))
   \<and> inquiries (addInquiry sb inquiry w) = inquiries w"
  by (auto simp add: ProductCard_onSubmit_def addInquiry_def addInquiry_try_def emit_def Let_def
      update_conv' split: reply.splits option.splits)

text \<open>
  The scenario of an inquiry by Asha about the clay bowl, with an empty message; and an
  inquiry object that arrives with a status of its own, against the failing gateway.
\<close>

theorem addInquiry_payload_no_refresh_witness:
  "ProductCard_onSubmit (addInquiry online) bowl asha_form (\<lparr>isOpen = True\<rparr>, stocked) =
     (\<lparr>isOpen = False\<rparr>,
      stocked\<lparr>effects :=
        [Insert_inquiries [[(''product'', ''Clay Bowl''), (''customer'', ''Asha''),
            (''contact'', ''555-0100''), (''message'', ''''), (''status'', ''New'')]],
         Alert ''Inquiry Sent! The artisan will contact you shortly.'']\<rparr>)
   \<and> addInquiry offline [(''status'', ''Closed''), (''customer'', ''Asha'')] stocked =
      stocked\<lparr>effects :=
        [Insert_inquiries [[(''status'', ''New''), (''customer'', ''Asha'')]],
         Alert ''Error sending inquiry: Failed to fetch'']\<rparr>"
  using addInquiry_payload_no_refresh
      [where sb = online and product = bowl and formData = asha_form
         and c = "\<lparr>isOpen = True\<rparr>" and w = stocked and inquiry = "[]"]
    addInquiry_payload_no_refresh
      [where sb = offline and inquiry = "[(''status'', ''Closed''), (''customer'', ''Asha'')]"
         and w = stocked]
  by (simp add: ProductCard_onSubmit_def addInquiry_def addInquiry_try_def emit_def online_def
      offline_def stocked_def failure_def asha_form_def bowl_def item_def)

text \<open>
  Claim C10. Submitting the add-product form sends the gateway a row whose image is the
  typed file name with a slash in front when the image field is not empty, and the fixed
  placeholder address when it is empty.
\<close>

theorem add_form_image_path:
  "(formData ''image'' \<noteq> [] \<longrightarrow>
     (\<exists>p rest.
        effects (snd (AdminDashboard_onSubmit Number (addProduct sb) formData (c, w))) =
          effects w @ Insert_products [p] # rest
        \<and> image_f p = ''/'' @ formData ''image''))
  \<and> (formData ''image'' = [] \<longrightarrow>
     (\<exists>p rest.
        effects (snd (AdminDashboard_onSubmit Number (addProduct sb) formData (c, w))) =
          effects w @ Insert_products [p] # rest
        \<and> image_f p = placeholder_image))"
proof -
  define p where "p = (\<lambda>img. \<lparr>name = formData ''name'', category = formData ''category'',
     price = Number (formData ''price''), description = formData ''description'',
     image_f = img\<rparr>)"
  have sent: "\<exists>rest. effects (addProduct sb (p img) w) = effects w @ Insert_products [p img] # rest"
    for img by (rule addProduct_effects)
  have img: "image_f (p img) = img" for img
    by (simp add: p_def)
  have run: "snd (AdminDashboard_onSubmit Number (addProduct sb) formData (c, w)) =
      addProduct sb (p (if formData ''image'' \<noteq> [] then ''/'' @ formData ''image''
        else placeholder_image)) w"
    by (simp add: AdminDashboard_onSubmit_def Let_def p_def)
  show ?thesis
  proof (intro conjI impI)
    assume "formData ''image'' \<noteq> []"
    with run sent [of "''/'' @ formData ''image''"] img [of "''/'' @ formData ''image''"]
    show "\<exists>q rest.
        effects (snd (AdminDashboard_onSubmit Number (addProduct sb) formData (c, w))) =
          effects w @ Insert_products [q] # rest \<and> image_f q = ''/'' @ formData ''image''"
      by auto
  next
    assume "formData ''image'' = []"
    with run sent [of placeholder_image] img [of placeholder_image]
    show "\<exists>q rest.
        effects (snd (AdminDashboard_onSubmit Number (addProduct sb) formData (c, w))) =
          effects w @ Insert_products [q] # rest \<and> image_f q = placeholder_image"
      by auto
  qed
qed

text \<open>The form with the file name \<^verbatim>\<open>bowl.jpg\<close>, and the same form with no file name.\<close>

theorem add_form_image_path_witness:
  "(\<exists>p rest. effects (snd (AdminDashboard_onSubmit digits (addProduct online) bowl_form
        (\<lparr>tab = ''products'', isAddOpen = True\<rparr>, stocked))) = Insert_products [p] # rest
      \<and> image_f p = ''/bowl.jpg'')
   \<and> (\<exists>p rest. effects (snd (AdminDashboard_onSubmit digits (addProduct online) plain_form
        (\<lparr>tab = ''products'', isAddOpen = True\<rparr>, stocked))) = Insert_products [p] # rest
      \<and> image_f p = placeholder_image)"
  using add_form_image_path [where formData = bowl_form and Number = digits and sb = online
      and c = "\<lparr>tab = ''products'', isAddOpen = True\<rparr>" and w = stocked]
    add_form_image_path [where formData = plain_form and Number = digits and sb = online
      and c = "\<lparr>tab = ''products'', isAddOpen = True\<rparr>" and w = stocked]
  by (simp add: bowl_form_def plain_form_def stocked_def)

section \<open>Session and navigation\<close>

text \<open>
  Claim C5. When the typed password is the fixed secret, \<^verbatim>\<open>handleLogin\<close> sets the
  authenticated flag and moves the view to \<^verbatim>\<open>admin-dashboard\<close>. For every other
  password the application state is unchanged, flag and view included, and the component
  shows the error message inline.
\<close>

theorem handleLogin_cases:
  "(pass c = ''sk234f90'' \<longrightarrow>
      handleLogin onLogin (c, w) = (c, w\<lparr>isAdmin := True, view := ''admin-dashboard''\<rparr>))
   \<and> (pass c \<noteq> ''sk234f90'' \<longrightarrow>
      handleLogin onLogin (c, w) = (c\<lparr>error := ''Invalid Password (Hint: admin)''\<rparr>, w) \<and>
      inline_error (fst (handleLogin onLogin (c, w))) = Some ''Invalid Password (Hint: admin)'')"
  by (simp add: handleLogin_def onLogin_def inline_error_def setters)

text \<open>The secret, and the password that the error message hints at.\<close>

theorem handleLogin_cases_witness:
  "handleLogin onLogin (\<lparr>pass = ''sk234f90'', error = []\<rparr>, App_init :: nat app) =
     (\<lparr>pass = ''sk234f90'', error = []\<rparr>,
      App_init\<lparr>isAdmin := True, view := ''admin-dashboard''\<rparr>)
   \<and> handleLogin onLogin (\<lparr>pass = ''admin'', error = []\<rparr>, App_init :: nat app) =
     (\<lparr>pass = ''admin'', error = ''Invalid Password (Hint: admin)''\<rparr>, App_init)
   \<and> inline_error
        (fst (handleLogin onLogin (\<lparr>pass = ''admin'', error = []\<rparr>, App_init :: nat app))) =
       Some ''Invalid Password (Hint: admin)''"
  using handleLogin_cases
      [where c = "\<lparr>pass = ''sk234f90'', error = []\<rparr>" and w = "App_init :: nat app"]
    handleLogin_cases
      [where c = "\<lparr>pass = ''admin'', error = []\<rparr>" and w = "App_init :: nat app"]
  by (simp add: inline_error_def)

text \<open>
  Claim C6. After the logout callback the authenticated flag is false and the view is
  \<^verbatim>\<open>home\<close>, from every state.
\<close>

theorem onLogout_resets:
  "isAdmin (onLogout w) = False \<and> view (onLogout w) = ''home''"
  by (simp add: onLogout_def setters)

section \<open>Derived views\<close>

text \<open>
  Claim C4, as amended. The category list of the catalog is \<^verbatim>\<open>All\<close> followed by the
  categories of the snapshot, each once, in the order of first occurrence; the list as a
  whole is free of duplicates exactly when no product has the category \<^verbatim>\<open>All\<close>. With
  a selected value other than \<^verbatim>\<open>All\<close> the catalog shows the products whose category
  equals it, in snapshot order; with \<^verbatim>\<open>All\<close> selected, be it the pseudo-category or a
  category of that name, it shows the whole snapshot.
\<close>

theorem catalog_categories_filter:
  "categories ps = ''All'' # first_occurrences (map category ps)
   \<and> first_occurrences (map category ps) = rev (remdups (rev (map category ps)))
   \<and> distinct (first_occurrences (map category ps))
   \<and> set (first_occurrences (map category ps)) = set (map category ps)
   \<and> (distinct (categories ps) \<longleftrightarrow> ''All'' \<notin> set (map category ps))
   \<and> (flt \<noteq> ''All'' \<longrightarrow> filteredProducts flt ps = filter (\<lambda>p. category p = flt) ps)
   \<and> (flt \<noteq> ''All'' \<longrightarrow> filteredProducts flt ps = exact_match flt ps)
   \<and> filteredProducts ''All'' ps = ps"
proof -
  have cats: "categories ps = ''All'' # first_occurrences (map category ps)"
    by (simp add: categories_def new_Set_first_occurrences)
  have whole: "distinct (categories ps) \<longleftrightarrow> ''All'' \<notin> set (map category ps)"
    unfolding cats by (simp add: distinct_first_occurrences set_first_occurrences)
  show ?thesis
    using cats whole
    by (simp add: distinct_first_occurrences set_first_occurrences filteredProducts_def
        exact_match_def first_occurrences_remdups [symmetric])
qed

text \<open>The example of two pottery items and one weaving item.\<close>

theorem catalog_categories_filter_witness:
  "categories trio = [''All'', ''Pottery'', ''Weaving'']
   \<and> distinct (categories trio)
   \<and> filteredProducts ''Weaving'' trio = [item ''Mat'' ''Weaving'' 2 200]
   \<and> exact_match ''Weaving'' trio = [item ''Mat'' ''Weaving'' 2 200]
   \<and> filteredProducts ''All'' trio = trio"
  using catalog_categories_filter [where ps = trio and flt = "''Weaving''"]
  by (simp add: trio_def item_def bowl_def exact_match_def)

text \<open>
  Claim C4 as stated fails on a snapshot with a product of category \<^verbatim>\<open>All\<close>: the
  derived list has \<^verbatim>\<open>All\<close> twice, and selecting that category shows both products of
  the snapshot, not the one product whose category matches.
\<close>

theorem catalog_category_named_All:
  "''All'' \<in> set (map category lamps)
   \<and> categories lamps = [''All'', ''All'', ''Pottery'']
   \<and> \<not> distinct (categories lamps)
   \<and> filteredProducts ''All'' lamps = [item ''Lamp'' ''All'' 6 600, bowl]
   \<and> exact_match ''All'' lamps = [item ''Lamp'' ''All'' 6 600]
   \<and> filteredProducts ''All'' lamps \<noteq> exact_match ''All'' lamps"
  by (simp add: lamps_def item_def bowl_def categories_def new_Set_def Set_add_def
      filteredProducts_def exact_match_def)

text \<open>
  Claim C9. The featured section of the home view shows the notice exactly when the
  snapshot is empty, and otherwise the first four products of the snapshot (all of them
  when there are fewer). When the snapshot is in descending order of creation time, no
  product left out is newer than a product shown.
\<close>

theorem HomeView_featured_first_four:
  "(HomeView_featured ps = Notice ''No products yet. Go to Admin > Dashboard to add some!''
      \<longleftrightarrow> ps = [])
   \<and> (ps \<noteq> [] \<longrightarrow>
        HomeView_featured ps = Cards (take 4 ps) \<and> length (take 4 ps) = min 4 (length ps))
   \<and> (sorted_wrt (\<lambda>a b. created_at a \<ge> created_at b) ps \<longrightarrow>
        (\<forall>a \<in> set (take 4 ps). \<forall>b \<in> set (drop 4 ps). created_at a \<ge> created_at b))"
proof (intro conjI impI ballI)
  show "(HomeView_featured ps = Notice ''No products yet. Go to Admin > Dashboard to add some!'')
      = (ps = [])"
    by (simp add: HomeView_featured_def)
next
  assume "ps \<noteq> []"
  then show "HomeView_featured ps = Cards (take 4 ps)"
    by (simp add: HomeView_featured_def)
next
  show "length (take 4 ps) = min 4 (length ps)"
    by simp
next
  fix a b
  assume "sorted_wrt (\<lambda>a b. created_at a \<ge> created_at b) ps"
    and "a \<in> set (take 4 ps)" and "b \<in> set (drop 4 ps)"
  then show "created_at a \<ge> created_at b"
    by (rule sorted_wrt_take_drop)
qed

text \<open>A shelf of five products, newest first, and the empty snapshot.\<close>

theorem HomeView_featured_first_four_witness:
  "HomeView_featured shelf = Cards (take 4 shelf)
   \<and> length (take 4 shelf) = 4
   \<and> HomeView_featured ([] :: nat product list) =
        Notice ''No products yet. Go to Admin > Dashboard to add some!''
   \<and> sorted_wrt (\<lambda>a b. created_at a \<ge> created_at b) shelf
   \<and> list_all (\<lambda>a. list_all (\<lambda>b. created_at a \<ge> created_at b) (drop 4 shelf)) (take 4 shelf)"
  using HomeView_featured_first_four [where ps = shelf]
    HomeView_featured_first_four [where ps = "[] :: nat product list"]
  by (simp add: shelf_def item_def bowl_def)

end
